theory Spec2Isabelle
  imports Main
begin

section \<open>The release PipelineRun builder of \<^verbatim>\<open>tekton/pipeline_run.go\<close>\<close>

text \<open>
  The Go file builds a Tekton PipelineRun by chained mutators on one handle
  \<^verbatim>\<open>*ReleasePipelineRun\<close>. Every mutator changes the object in place and returns the same
  handle, so the model passes the object explicitly: a mutator takes the run (first
  argument, the receiver) and returns the changed run. Arguments passed by pointer are
  modelled by the value pointed to. A run-time panic is a value of type \<open>panic\<close>, and a
  mutator that can panic returns \<open>panic + ReleasePipelineRun\<close>.
\<close>

subsection \<open>Data of the Tekton and Kubernetes libraries, as far as the file uses them\<close>

datatype ParamType = ParamTypeString | ParamTypeArray

text \<open>\<^verbatim>\<open>tektonv1beta1.ArrayOrString\<close> (also named \<^verbatim>\<open>ParamValue\<close>): a shape tag and both slots.
  A slot that a composite literal does not mention holds Go's zero value.\<close>

record ArrayOrString =
  Type :: ParamType
  StringVal :: string
  ArrayVal :: "string list"

record Param =
  Param_Name :: string
  Param_Value :: ArrayOrString

record ResolverRef =
  Resolver :: string
  ResolverRef_Params :: "Param list"

record PipelineRef =
  PipelineRef_Name :: string
  PipelineRef_ResolverRef :: ResolverRef

record PersistentVolumeClaimVolumeSource =
  ClaimName :: string

record WorkspaceBinding =
  WorkspaceBinding_Name :: string
  WorkspaceBinding_PersistentVolumeClaim :: "PersistentVolumeClaimVolumeSource option"

text \<open>The PipelineRun under construction: the fields of its object metadata and of its
  \<^verbatim>\<open>Spec\<close> that the file reads or writes. Go maps are partial functions; a nil pointer
  field is \<open>None\<close>.\<close>

record ReleasePipelineRun =
  GenerateName :: string
  Namespace :: string
  Labels :: "string \<rightharpoonup> string"
  Annotations :: "string \<rightharpoonup> string"
  Finalizers :: "string list"
  Spec_PipelineRef :: "PipelineRef option"
  Spec_Params :: "Param list"
  Spec_ServiceAccountName :: string
  Spec_Workspaces :: "WorkspaceBinding list"

subsection \<open>Inputs\<close>

text \<open>One parameter of a release strategy (\<^verbatim>\<open>strategy.Spec.Params\<close>): a name, a single
  value and a list of values.\<close>

record Params =
  Params_Name :: string
  Params_Value :: string
  Params_Values :: "string list"

record ReleaseStrategy =
  Pipeline :: string
  Bundle :: string
  Strategy_Params :: "Params list"
  PersistentVolumeClaim :: string
  ServiceAccount :: string

record Release =
  Release_Name :: string
  Release_Namespace :: string
  Release_Group :: string
  Release_Kind :: string
  Release_Labels :: "string \<rightharpoonup> string"
  Release_Annotations :: "string \<rightharpoonup> string"

record 'spec EnterpriseContractPolicy =
  Policy_Kind :: string
  Policy_Spec :: 'spec

record ConfigMap =
  Data :: "string \<rightharpoonup> string"

text \<open>A \<^verbatim>\<open>client.Object\<close>, as \<^verbatim>\<open>WithObjectReferences\<close> reads it.\<close>

record Object =
  Object_Kind :: string
  Object_Namespace :: string
  Object_Name :: string

text \<open>The constants of the packages \<^verbatim>\<open>metadata\<close> and \<^verbatim>\<open>gitops\<close> that the file names.
  Their declarations are not part of the file, so the functions take them as a
  parameter.\<close>

record constants =
  PipelinesTypeLabel :: string
  ReleaseNameLabel :: string
  ReleaseNamespaceLabel :: string
  ApplicationNameLabel :: string
  ReleaseFinalizer :: string
  PipelinesAsCodePrefix :: string

datatype panic = IndexOutOfRange

datatype error = MarshalError | OwnerWithoutName | OwnerKindNotFound

subsection \<open>Go strings and runes\<close>

text \<open>
  A Go string is a sequence of bytes (\<open>string\<close>, a list of 8-bit \<open>char\<close>); a rune is an
  \<^verbatim>\<open>int32\<close> code point. The conversion \<^verbatim>\<open>[]rune(s)\<close> decodes UTF-8 and yields
  \<^verbatim>\<open>U+FFFD\<close> for every byte that starts no well-formed sequence; \<^verbatim>\<open>string(runes)\<close>
  encodes and writes \<^verbatim>\<open>U+FFFD\<close> for a rune that is no scalar value. The bit masks of
  the Go runtime are written with \<open>mod\<close>, \<open>div\<close> and \<open>+\<close>.
\<close>

type_synonym rune = int

definition RuneError :: rune where
  "RuneError = 0xFFFD"

definition continuation :: "char \<Rightarrow> bool" where
  "continuation b \<longleftrightarrow> (0x80::int) \<le> of_char b \<and> (of_char b :: int) \<le> 0xBF"

text \<open>One decoding step: the rune at the head of the bytes and the number of bytes read.\<close>

fun decoderune :: "string \<Rightarrow> rune \<times> nat" where
  "decoderune [] = (RuneError, 1)"
| "decoderune (b0 # s) =
     (let c0 = (of_char b0 :: int) in
      if c0 < 0x80 then (c0, 1)
      else if 0xC0 \<le> c0 \<and> c0 < 0xE0 then
        (case s of
           b1 # _ \<Rightarrow>
             if continuation b1 then
               (let r = (c0 mod 0x20) * 0x40 + of_char b1 mod 0x40
                in if 0x7F < r then (r, 2) else (RuneError, 1))
             else (RuneError, 1)
         | _ \<Rightarrow> (RuneError, 1))
      else if 0xE0 \<le> c0 \<and> c0 < 0xF0 then
        (case s of
           b1 # b2 # _ \<Rightarrow>
             if continuation b1 \<and> continuation b2 then
               (let r = (c0 mod 0x10) * 0x1000 + (of_char b1 mod 0x40) * 0x40
                        + of_char b2 mod 0x40
                in if 0x7FF < r \<and> \<not> (0xD800 \<le> r \<and> r \<le> 0xDFFF) then (r, 3)
                   else (RuneError, 1))
             else (RuneError, 1)
         | _ \<Rightarrow> (RuneError, 1))
      else if 0xF0 \<le> c0 \<and> c0 < 0xF8 then
        (case s of
           b1 # b2 # b3 # _ \<Rightarrow>
             if continuation b1 \<and> continuation b2 \<and> continuation b3 then
               (let r = (c0 mod 0x08) * 0x40000 + (of_char b1 mod 0x40) * 0x1000
                        + (of_char b2 mod 0x40) * 0x40 + of_char b3 mod 0x40
                in if 0xFFFF < r \<and> r \<le> 0x10FFFF then (r, 4) else (RuneError, 1))
             else (RuneError, 1)
         | _ \<Rightarrow> (RuneError, 1))
      else (RuneError, 1))"

declare decoderune.simps [simp del]

text \<open>\<^verbatim>\<open>[]rune(s)\<close>: decode until the bytes are used up.\<close>

fun stringtoslicerune :: "string \<Rightarrow> rune list" where
  "stringtoslicerune [] = []"
| "stringtoslicerune (b0 # s) =
     fst (decoderune (b0 # s)) # stringtoslicerune (drop (snd (decoderune (b0 # s)) - 1) s)"

definition encoderune :: "rune \<Rightarrow> string" where
  "encoderune r =
     (if 0 \<le> r \<and> r \<le> 0x7F then [char_of r]
      else if 0 \<le> r \<and> r \<le> 0x7FF then
        [char_of (0xC0 + r div 0x40), char_of (0x80 + r mod 0x40)]
      else if r < 0 \<or> 0x10FFFF < r \<or> (0xD800 \<le> r \<and> r \<le> 0xDFFF) then
        [char_of (0xEF :: int), char_of (0xBF :: int), char_of (0xBD :: int)]
      else if r \<le> 0xFFFF then
        [char_of (0xE0 + r div 0x1000), char_of (0x80 + (r div 0x40) mod 0x40),
         char_of (0x80 + r mod 0x40)]
      else
        [char_of (0xF0 + r div 0x40000), char_of (0x80 + (r div 0x1000) mod 0x40),
         char_of (0x80 + (r div 0x40) mod 0x40), char_of (0x80 + r mod 0x40)])"

text \<open>\<^verbatim>\<open>string(runes)\<close>.\<close>

definition slicerunetostring :: "rune list \<Rightarrow> string" where
  "slicerunetostring rs = concat (map encoderune rs)"


text \<open>\<^verbatim>\<open>unicode.ToLower\<close>: the ASCII range is decided by the function itself, every other
  rune by the case tables of the Unicode package, which are the parameter \<open>tbl\<close>.\<close>

definition ToLower :: "(rune \<Rightarrow> rune) \<Rightarrow> rune \<Rightarrow> rune" where
  "ToLower tbl r =
     (if r \<le> 0x7F then (if 0x41 \<le> r \<and> r \<le> 0x5A then r + (0x61 - 0x41) else r)
      else tbl r)"

text \<open>\<^verbatim>\<open>strings.ToLower\<close>: every rune of the string mapped by \<^verbatim>\<open>unicode.ToLower\<close>; a
  rune mapped to a negative value is dropped.\<close>

definition strings_ToLower :: "(rune \<Rightarrow> rune) \<Rightarrow> string \<Rightarrow> string" where
  "strings_ToLower tbl s =
     slicerunetostring (filter (\<lambda>r. 0 \<le> r) (map (ToLower tbl) (stringtoslicerune s)))"

text \<open>\<^verbatim>\<open>os.Getenv\<close> on an environment: the value of the variable, the empty string when it
  is not set.\<close>

definition Getenv :: "(string \<rightharpoonup> string) \<Rightarrow> string \<Rightarrow> string" where
  "Getenv env key = (case env key of None \<Rightarrow> [] | Some v \<Rightarrow> v)"

text \<open>Reading a Go map: the zero value for a key that is absent.\<close>

definition index_map :: "(string \<rightharpoonup> string) \<Rightarrow> string \<Rightarrow> string" where
  "index_map m key = (case m key of None \<Rightarrow> [] | Some v \<Rightarrow> v)"

subsection \<open>The builder\<close>

definition PipelineTypeRelease :: string where
  "PipelineTypeRelease = ''release''"

definition NewReleasePipelineRun :: "string \<Rightarrow> string \<Rightarrow> ReleasePipelineRun" where
  "NewReleasePipelineRun prefix namespace =
     \<lparr>GenerateName = prefix @ ''-'', Namespace = namespace, Labels = Map.empty,
      Annotations = Map.empty, Finalizers = [], Spec_PipelineRef = None, Spec_Params = [],
      Spec_ServiceAccountName = [], Spec_Workspaces = []\<rparr>"

definition WithExtraParam :: "ReleasePipelineRun \<Rightarrow> string \<Rightarrow> ArrayOrString \<Rightarrow> ReleasePipelineRun" where
  "WithExtraParam r name val =
     r\<lparr>Spec_Params := Spec_Params r @ [\<lparr>Param_Name = name, Param_Value = val\<rparr>]\<rparr>"

definition gitResolverFields :: "string list" where
  "gitResolverFields =
     [''verify_ec_task_git_url'', ''verify_ec_task_git_revision'',
      ''verify_ec_task_git_pathInRepo'']"

definition WithEnterpriseContractConfigMap :: "ReleasePipelineRun \<Rightarrow> ConfigMap \<Rightarrow> ReleasePipelineRun" where
  "WithEnterpriseContractConfigMap r ecConfig =
     foldl (\<lambda>r field.
              WithExtraParam r field
                \<lparr>Type = ParamTypeString, StringVal = index_map (Data ecConfig) field,
                 ArrayVal = []\<rparr>)
       r gitResolverFields"

text \<open>
  \<^verbatim>\<open>json.Marshal\<close> is the parameter \<open>marshal\<close>; when it fails it returns no bytes, and the
  caller drops the error. \<^verbatim>\<open>policyKindRunes[0]\<close> is an index into a slice: on the empty
  slice the Go runtime panics, before the run has been changed.
\<close>

definition WithEnterpriseContractPolicy ::
  "(rune \<Rightarrow> rune) \<Rightarrow> ('spec \<Rightarrow> error + string) \<Rightarrow> ReleasePipelineRun \<Rightarrow>
   'spec EnterpriseContractPolicy \<Rightarrow> panic + ReleasePipelineRun" where
  "WithEnterpriseContractPolicy tbl marshal r enterpriseContractPolicy =
     (let policyJson = (case marshal (Policy_Spec enterpriseContractPolicy) of
                          Inl _ \<Rightarrow> [] | Inr bytes \<Rightarrow> bytes);
          policyKindRunes = stringtoslicerune (Policy_Kind enterpriseContractPolicy)
      in if length policyKindRunes = 0 then Inl IndexOutOfRange
         else Inr (WithExtraParam r
                     (slicerunetostring
                        (policyKindRunes[0 := ToLower tbl (policyKindRunes ! 0)]))
                     \<lparr>Type = ParamTypeString, StringVal = policyJson, ArrayVal = []\<rparr>))"

definition WithObjectReferences ::
  "(rune \<Rightarrow> rune) \<Rightarrow> ReleasePipelineRun \<Rightarrow> Object list \<Rightarrow> ReleasePipelineRun" where
  "WithObjectReferences tbl r objects =
     foldl (\<lambda>r object.
              WithExtraParam r (strings_ToLower tbl (Object_Kind object))
                \<lparr>Type = ParamTypeString,
                 StringVal = Object_Namespace object @ ''/'' @ Object_Name object,
                 ArrayVal = []\<rparr>)
       r objects"

definition WithServiceAccount :: "ReleasePipelineRun \<Rightarrow> string \<Rightarrow> ReleasePipelineRun" where
  "WithServiceAccount r serviceAccount = r\<lparr>Spec_ServiceAccountName := serviceAccount\<rparr>"

definition WithWorkspace :: "ReleasePipelineRun \<Rightarrow> string \<Rightarrow> string \<Rightarrow> ReleasePipelineRun" where
  "WithWorkspace r name persistentVolumeClaim =
     (if name = [] \<or> persistentVolumeClaim = [] then r
      else r\<lparr>Spec_Workspaces := Spec_Workspaces r @
               [\<lparr>WorkspaceBinding_Name = name,
                 WorkspaceBinding_PersistentVolumeClaim =
                   Some \<lparr>ClaimName = persistentVolumeClaim\<rparr>\<rparr>]\<rparr>)"

definition getBundleResolver :: "string \<Rightarrow> string \<Rightarrow> ResolverRef" where
  "getBundleResolver bundle pipeline =
     \<lparr>Resolver = ''bundles'',
      ResolverRef_Params =
        [\<lparr>Param_Name = ''bundle'',
          Param_Value = \<lparr>Type = ParamTypeString, StringVal = bundle, ArrayVal = []\<rparr>\<rparr>,
         \<lparr>Param_Name = ''kind'',
          Param_Value = \<lparr>Type = ParamTypeString, StringVal = ''pipeline'', ArrayVal = []\<rparr>\<rparr>,
         \<lparr>Param_Name = ''name'',
          Param_Value = \<lparr>Type = ParamTypeString, StringVal = pipeline, ArrayVal = []\<rparr>\<rparr>]\<rparr>"

definition getPipelineRef :: "ReleaseStrategy \<Rightarrow> PipelineRef" where
  "getPipelineRef strategy =
     (if Bundle strategy = [] then
        \<lparr>PipelineRef_Name = Pipeline strategy,
         PipelineRef_ResolverRef = \<lparr>Resolver = [], ResolverRef_Params = []\<rparr>\<rparr>
      else
        \<lparr>PipelineRef_Name = [],
         PipelineRef_ResolverRef = getBundleResolver (Bundle strategy) (Pipeline strategy)\<rparr>)"

text \<open>
  The loop of \<^verbatim>\<open>WithReleaseStrategy\<close> over the parameters of the strategy. The variable
  \<^verbatim>\<open>valueType\<close> is declared before the loop and assigned inside it, so it is carried from
  one iteration to the next.
\<close>

fun strategy_params_loop :: "ParamType \<Rightarrow> ReleasePipelineRun \<Rightarrow> Params list \<Rightarrow> ReleasePipelineRun" where
  "strategy_params_loop valueType r [] = r"
| "strategy_params_loop valueType r (param # params) =
     (let valueType = (if length (Params_Values param) > 0 then ParamTypeArray else valueType)
      in strategy_params_loop valueType
           (WithExtraParam r (Params_Name param)
              \<lparr>Type = valueType, StringVal = Params_Value param,
               ArrayVal = Params_Values param\<rparr>)
           params)"

definition WithReleaseStrategy ::
  "(string \<rightharpoonup> string) \<Rightarrow> ReleasePipelineRun \<Rightarrow> ReleaseStrategy \<Rightarrow> ReleasePipelineRun" where
  "WithReleaseStrategy env r strategy =
     (let r = r\<lparr>Spec_PipelineRef := Some (getPipelineRef strategy)\<rparr>;
          r = strategy_params_loop ParamTypeString r (Strategy_Params strategy);
          r = (if PersistentVolumeClaim strategy = [] then
                 WithWorkspace r (Getenv env ''DEFAULT_RELEASE_WORKSPACE_NAME'')
                   (Getenv env ''DEFAULT_RELEASE_PVC'')
               else
                 WithWorkspace r (Getenv env ''DEFAULT_RELEASE_WORKSPACE_NAME'')
                   (PersistentVolumeClaim strategy))
      in WithServiceAccount r (ServiceAccount strategy))"

subsection \<open>Owner and metadata\<close>

text \<open>
  \<^verbatim>\<open>libhandler.SetOwnerAnnotations\<close> of the operator library: it refuses an owner without a
  name or without a kind and leaves the object as it is; otherwise it records the owner
  in two annotations of the object, \<^verbatim>\<open>namespace/name\<close> and the group-kind of the owner.
\<close>

definition NamespacedNameAnnotation :: string where
  "NamespacedNameAnnotation = ''operator-sdk/primary-resource''"

definition TypeAnnotation :: string where
  "TypeAnnotation = ''operator-sdk/primary-resource-type''"

definition GroupKind_String :: "string \<Rightarrow> string \<Rightarrow> string" where
  "GroupKind_String gr kind = (if length gr = 0 then kind else kind @ ''.'' @ gr)"

definition SetOwnerAnnotations :: "Release \<Rightarrow> ReleasePipelineRun \<Rightarrow> error + ReleasePipelineRun" where
  "SetOwnerAnnotations owner object =
     (if Release_Name owner = [] then Inl OwnerWithoutName
      else if Release_Kind owner = [] then Inl OwnerKindNotFound
      else Inr (object\<lparr>Annotations := (Annotations object)
                  (NamespacedNameAnnotation \<mapsto> Release_Namespace owner @ ''/'' @ Release_Name owner,
                   TypeAnnotation \<mapsto> GroupKind_String (Release_Group owner) (Release_Kind owner))\<rparr>))"

text \<open>\<^verbatim>\<open>controllerutil.AddFinalizer\<close>: append the finalizer unless the object has it.\<close>

definition AddFinalizer :: "ReleasePipelineRun \<Rightarrow> string \<Rightarrow> ReleasePipelineRun" where
  "AddFinalizer obj finalizer =
     (if finalizer \<in> set (Finalizers obj) then obj
      else obj\<lparr>Finalizers := Finalizers obj @ [finalizer]\<rparr>)"

text \<open>\<^verbatim>\<open>_ = libhandler.SetOwnerAnnotations(release, r)\<close>: the error is dropped, and the run
  is the one the call left behind.\<close>

definition WithOwner :: "constants \<Rightarrow> ReleasePipelineRun \<Rightarrow> Release \<Rightarrow> ReleasePipelineRun" where
  "WithOwner c r release =
     (let r = (case SetOwnerAnnotations release r of Inl _ \<Rightarrow> r | Inr r' \<Rightarrow> r')
      in AddFinalizer r (ReleaseFinalizer c))"

definition HasPrefix :: "string \<Rightarrow> string \<Rightarrow> bool" where
  "HasPrefix s prefix \<longleftrightarrow> length prefix \<le> length s \<and> take (length prefix) s = prefix"

text \<open>Modelled from the spec: \<^verbatim>\<open>metadata.GetLabelsWithPrefix\<close> and
  \<^verbatim>\<open>metadata.GetAnnotationsWithPrefix\<close>, whose source is not in the file. They select every
  entry of the release whose key carries the prefix, key and value as they are.\<close>

definition filterByPrefix :: "(string \<rightharpoonup> string) \<Rightarrow> string \<Rightarrow> (string \<rightharpoonup> string)" where
  "filterByPrefix entries prefix = (\<lambda>k. if HasPrefix k prefix then entries k else None)"

text \<open>Modelled from the spec: the labels of the release whose key carries the prefix.\<close>

definition GetLabelsWithPrefix :: "Release \<Rightarrow> string \<Rightarrow> (string \<rightharpoonup> string)" where
  "GetLabelsWithPrefix release prefix = filterByPrefix (Release_Labels release) prefix"

text \<open>Modelled from the spec: the annotations of the release whose key carries the
  prefix.\<close>

definition GetAnnotationsWithPrefix :: "Release \<Rightarrow> string \<Rightarrow> (string \<rightharpoonup> string)" where
  "GetAnnotationsWithPrefix release prefix = filterByPrefix (Release_Annotations release) prefix"

text \<open>Modelled from the spec: \<^verbatim>\<open>metadata.AddLabels\<close>, whose source is not in the file. It
  copies the entries into the label mapping of the run; an entry copied replaces the
  entry the run has under the same key, every other entry of the run stays.\<close>

definition AddLabels :: "ReleasePipelineRun \<Rightarrow> (string \<rightharpoonup> string) \<Rightarrow> ReleasePipelineRun" where
  "AddLabels r entries = r\<lparr>Labels := Labels r ++ entries\<rparr>"

text \<open>Modelled from the spec: \<^verbatim>\<open>metadata.AddAnnotations\<close>, whose source is not in the file.
  It copies the entries into the annotation mapping of the run in the same way.\<close>

definition AddAnnotations :: "ReleasePipelineRun \<Rightarrow> (string \<rightharpoonup> string) \<Rightarrow> ReleasePipelineRun" where
  "AddAnnotations r entries = r\<lparr>Annotations := Annotations r ++ entries\<rparr>"

text \<open>The map literal of \<^verbatim>\<open>WithReleaseAndApplicationMetadata\<close> replaces the label mapping
  of the run. Its four keys are constants, which Go requires to be distinct.\<close>

definition WithReleaseAndApplicationMetadata ::
  "constants \<Rightarrow> ReleasePipelineRun \<Rightarrow> Release \<Rightarrow> string \<Rightarrow> ReleasePipelineRun" where
  "WithReleaseAndApplicationMetadata c r release applicationName =
     (let r = r\<lparr>Labels :=
                 [PipelinesTypeLabel c \<mapsto> PipelineTypeRelease,
                  ReleaseNameLabel c \<mapsto> Release_Name release,
                  ReleaseNamespaceLabel c \<mapsto> Release_Namespace release,
                  ApplicationNameLabel c \<mapsto> applicationName]\<rparr>;
          r = AddAnnotations r (GetAnnotationsWithPrefix release (PipelinesAsCodePrefix c));
          r = AddLabels r (GetLabelsWithPrefix release (PipelinesAsCodePrefix c))
      in r)"

subsection \<open>Concrete inputs\<close>

text \<open>Inputs on which the definitions are evaluated below: constants of the shape the
  service uses, a release with one label and one annotation under the propagated prefix,
  a release without a name, and four strategies.\<close>

definition example_constants :: constants where
  "example_constants =
     \<lparr>PipelinesTypeLabel = ''pipelines.appstudio.openshift.io/type'',
      ReleaseNameLabel = ''release.appstudio.openshift.io/name'',
      ReleaseNamespaceLabel = ''release.appstudio.openshift.io/namespace'',
      ApplicationNameLabel = ''appstudio.openshift.io/application'',
      ReleaseFinalizer = ''appstudio.redhat.com/release-finalizer'',
      PipelinesAsCodePrefix = ''pac.test.appstudio.openshift.io''\<rparr>"


definition example_release :: Release where
  "example_release =
     \<lparr>Release_Name = ''rel-1'', Release_Namespace = ''dev'',
      Release_Group = ''appstudio.redhat.com'', Release_Kind = ''Release'',
      Release_Labels = [''pac.test.appstudio.openshift.io/sha'' \<mapsto> ''abc'', ''team'' \<mapsto> ''x''],
      Release_Annotations = [''pac.test.appstudio.openshift.io/url'' \<mapsto> ''u'']\<rparr>"

definition nameless_release :: Release where
  "nameless_release =
     \<lparr>Release_Name = [], Release_Namespace = ''dev'',
      Release_Group = ''appstudio.redhat.com'', Release_Kind = ''Release'',
      Release_Labels = Map.empty, Release_Annotations = Map.empty\<rparr>"

definition list_then_scalar_strategy :: ReleaseStrategy where
  "list_then_scalar_strategy =
     \<lparr>Pipeline = ''build'', Bundle = [],
      Strategy_Params =
        [\<lparr>Params_Name = ''targets'', Params_Value = [], Params_Values = [''a'', ''b'']\<rparr>,
         \<lparr>Params_Name = ''verbose'', Params_Value = ''true'', Params_Values = []\<rparr>],
      PersistentVolumeClaim = ''pvc-1'', ServiceAccount = ''sa''\<rparr>"

definition both_slots_strategy :: ReleaseStrategy where
  "both_slots_strategy =
     \<lparr>Pipeline = ''build'', Bundle = [],
      Strategy_Params =
        [\<lparr>Params_Name = ''targets'', Params_Value = ''single'', Params_Values = [''a'']\<rparr>],
      PersistentVolumeClaim = ''pvc-1'', ServiceAccount = ''sa''\<rparr>"

definition scenario_strategy :: ReleaseStrategy where
  "scenario_strategy =
     \<lparr>Pipeline = ''build'', Bundle = [],
      Strategy_Params =
        [\<lparr>Params_Name = ''verbose'', Params_Value = ''true'', Params_Values = []\<rparr>],
      PersistentVolumeClaim = ''pvc-1'', ServiceAccount = []\<rparr>"

definition bundle_strategy :: ReleaseStrategy where
  "bundle_strategy =
     \<lparr>Pipeline = ''deploy'', Bundle = ''quay.io/foo:v1'', Strategy_Params = [],
      PersistentVolumeClaim = [], ServiceAccount = []\<rparr>"

section \<open>Properties\<close>

subsection \<open>The pipeline reference\<close>

text \<open>
  Claim C4. For a strategy with a non-empty bundle locator, \<open>getPipelineRef\<close> returns a
  reference with no direct name, whose resolver is the literal \<^verbatim>\<open>bundles\<close> and whose
  parameters are, in this order, \<^verbatim>\<open>bundle\<close> with the bundle of the strategy, \<^verbatim>\<open>kind\<close>
  with the literal \<^verbatim>\<open>pipeline\<close>, and \<^verbatim>\<open>name\<close> with the pipeline of the strategy, each a
  string parameter.
\<close>

theorem getPipelineRef_bundle:
  assumes "Bundle strategy \<noteq> []"
  shows "getPipelineRef strategy =
     \<lparr>PipelineRef_Name = [],
      PipelineRef_ResolverRef =
        \<lparr>Resolver = ''bundles'',
         ResolverRef_Params =
           [\<lparr>Param_Name = ''bundle'',
             Param_Value = \<lparr>Type = ParamTypeString, StringVal = Bundle strategy, ArrayVal = []\<rparr>\<rparr>,
            \<lparr>Param_Name = ''kind'',
             Param_Value = \<lparr>Type = ParamTypeString, StringVal = ''pipeline'', ArrayVal = []\<rparr>\<rparr>,
            \<lparr>Param_Name = ''name'',
             Param_Value = \<lparr>Type = ParamTypeString, StringVal = Pipeline strategy, ArrayVal = []\<rparr>\<rparr>]\<rparr>\<rparr>"
  using assms by (simp add: getPipelineRef_def getBundleResolver_def)

text \<open>The strategy with bundle \<^verbatim>\<open>quay.io/foo:v1\<close> and pipeline \<^verbatim>\<open>deploy\<close>.\<close>

theorem getPipelineRef_bundle_witness:
  "Bundle bundle_strategy \<noteq> [] \<and>
   map (\<lambda>q. (Param_Name q, StringVal (Param_Value q)))
     (ResolverRef_Params (PipelineRef_ResolverRef (getPipelineRef bundle_strategy)))
   = [(''bundle'', ''quay.io/foo:v1''), (''kind'', ''pipeline''), (''name'', ''deploy'')]"
  using getPipelineRef_bundle [of bundle_strategy]
  by (simp add: bundle_strategy_def)

text \<open>
  Claim C5. For a strategy whose bundle locator is the empty string, \<open>getPipelineRef\<close>
  returns the direct-name reference with the pipeline of the strategy as it is, also when
  that name is empty; its resolver part is the zero value, so it is the bundle resolver of
  no bundle and pipeline.
\<close>

theorem getPipelineRef_name:
  assumes "Bundle strategy = []"
  shows "getPipelineRef strategy =
     \<lparr>PipelineRef_Name = Pipeline strategy,
      PipelineRef_ResolverRef = \<lparr>Resolver = [], ResolverRef_Params = []\<rparr>\<rparr> \<and>
     PipelineRef_ResolverRef (getPipelineRef strategy) \<noteq> getBundleResolver b p"
  using assms by (simp add: getPipelineRef_def getBundleResolver_def)

theorem getPipelineRef_name_witness:
  "Bundle scenario_strategy = [] \<and> PipelineRef_Name (getPipelineRef scenario_strategy) = ''build'' \<and>
   Resolver (PipelineRef_ResolverRef (getPipelineRef scenario_strategy)) = [] \<and>
   PipelineRef_Name (getPipelineRef (scenario_strategy\<lparr>Pipeline := []\<rparr>)) = []"
  using getPipelineRef_name [of scenario_strategy] getPipelineRef_name [of "scenario_strategy\<lparr>Pipeline := []\<rparr>"]
  by (simp add: scenario_strategy_def)

subsection \<open>The workspace\<close>

text \<open>
  Claim C6. On a run without workspace binding, \<open>WithWorkspace\<close> leaves the run as it is
  when the name or the claim is empty, so no binding is attached; when both are
  non-empty the run has exactly one binding afterwards, with that name and that claim.
\<close>

theorem WithWorkspace_binding:
  assumes "Spec_Workspaces r = []"
  shows "(name = [] \<or> claim = [] \<longrightarrow> WithWorkspace r name claim = r \<and> Spec_Workspaces (WithWorkspace r name claim) = []) \<and>
         (name \<noteq> [] \<and> claim \<noteq> [] \<longrightarrow>
            WithWorkspace r name claim =
              r\<lparr>Spec_Workspaces :=
                  [\<lparr>WorkspaceBinding_Name = name,
                    WorkspaceBinding_PersistentVolumeClaim = Some \<lparr>ClaimName = claim\<rparr>\<rparr>]\<rparr>)"
  using assms by (simp add: WithWorkspace_def)

theorem WithWorkspace_binding_witness:
  "Spec_Workspaces (NewReleasePipelineRun ''release'' ''ns'') = [] \<and>
   Spec_Workspaces (WithWorkspace (NewReleasePipelineRun ''release'' ''ns'') [] ''pvc-1'') = [] \<and>
   Spec_Workspaces (WithWorkspace (NewReleasePipelineRun ''release'' ''ns'') ''release-ws'' []) = [] \<and>
   Spec_Workspaces (WithWorkspace (NewReleasePipelineRun ''release'' ''ns'') ''release-ws'' ''pvc-1'')
     = [\<lparr>WorkspaceBinding_Name = ''release-ws'',
         WorkspaceBinding_PersistentVolumeClaim = Some \<lparr>ClaimName = ''pvc-1''\<rparr>\<rparr>]"
  using WithWorkspace_binding [of "NewReleasePipelineRun ''release'' ''ns''" "[]" "''pvc-1''"]
    WithWorkspace_binding [of "NewReleasePipelineRun ''release'' ''ns''" "''release-ws''" "[]"]
    WithWorkspace_binding [of "NewReleasePipelineRun ''release'' ''ns''" "''release-ws''" "''pvc-1''"]
  by (simp add: NewReleasePipelineRun_def)

subsection \<open>Parameters from the config map and from the policy\<close>

text \<open>
  Claim C9. For every config map, \<open>WithEnterpriseContractConfigMap\<close> appends exactly three
  string parameters, named after the three fixed keys for the URL, the revision and the
  path in the repository of the git resolver, in this order; each value is the entry of
  the config map under that key, and the empty string when the key is absent. Nothing
  else of the run changes, and the function has no error result.
\<close>

theorem WithEnterpriseContractConfigMap_params:
  "WithEnterpriseContractConfigMap r ecConfig =
     r\<lparr>Spec_Params := Spec_Params r @
        [\<lparr>Param_Name = ''verify_ec_task_git_url'',
          Param_Value = \<lparr>Type = ParamTypeString,
            StringVal = (case Data ecConfig ''verify_ec_task_git_url'' of None \<Rightarrow> [] | Some v \<Rightarrow> v),
            ArrayVal = []\<rparr>\<rparr>,
         \<lparr>Param_Name = ''verify_ec_task_git_revision'',
          Param_Value = \<lparr>Type = ParamTypeString,
            StringVal = (case Data ecConfig ''verify_ec_task_git_revision'' of None \<Rightarrow> [] | Some v \<Rightarrow> v),
            ArrayVal = []\<rparr>\<rparr>,
         \<lparr>Param_Name = ''verify_ec_task_git_pathInRepo'',
          Param_Value = \<lparr>Type = ParamTypeString,
            StringVal = (case Data ecConfig ''verify_ec_task_git_pathInRepo'' of None \<Rightarrow> [] | Some v \<Rightarrow> v),
            ArrayVal = []\<rparr>\<rparr>]\<rparr>"
  by (simp add: WithEnterpriseContractConfigMap_def gitResolverFields_def WithExtraParam_def
      index_map_def)

theorem WithEnterpriseContractConfigMap_params_witness:
  "map (\<lambda>q. (Param_Name q, Type (Param_Value q), StringVal (Param_Value q), ArrayVal (Param_Value q)))
     (Spec_Params (WithEnterpriseContractConfigMap (NewReleasePipelineRun ''release'' ''ns'')
        \<lparr>Data = [''verify_ec_task_git_url'' \<mapsto> ''https://example.com/repo.git'']\<rparr>))
   = [(''verify_ec_task_git_url'', ParamTypeString, ''https://example.com/repo.git'', []),
      (''verify_ec_task_git_revision'', ParamTypeString, [], []),
      (''verify_ec_task_git_pathInRepo'', ParamTypeString, [], [])]"
  using WithEnterpriseContractConfigMap_params [of "NewReleasePipelineRun ''release'' ''ns''"
      "\<lparr>Data = [''verify_ec_task_git_url'' \<mapsto> ''https://example.com/repo.git'']\<rparr>"]
  by (simp add: NewReleasePipelineRun_def)



lemma list_update_0_hd_tl: "xs \<noteq> [] \<Longrightarrow> xs[0 := f (xs ! 0)] = f (hd xs) # tl xs"
  by (cases xs) simp_all















text \<open>
  Claim C2. Not every mutator is total: on a policy whose kind is the empty string,
  \<open>WithEnterpriseContractPolicy\<close> indexes the empty slice of runes, and the run-time
  panics.
\<close>

theorem WithEnterpriseContractPolicy_empty_Kind:
  "WithEnterpriseContractPolicy tbl marshal r \<lparr>Policy_Kind = [], Policy_Spec = spec\<rparr>
     = Inl IndexOutOfRange"
  by (simp add: WithEnterpriseContractPolicy_def)

subsection \<open>Parameters of the strategy\<close>

lemma strategy_params_loop_slots:
  "map (\<lambda>q. (Param_Name q, StringVal (Param_Value q), ArrayVal (Param_Value q)))
       (Spec_Params (strategy_params_loop valueType r params)) =
     map (\<lambda>q. (Param_Name q, StringVal (Param_Value q), ArrayVal (Param_Value q)))
       (Spec_Params r) @
     map (\<lambda>p. (Params_Name p, Params_Value p, Params_Values p)) params"
  by (induction params arbitrary: valueType r)
     (simp_all add: WithExtraParam_def Let_def)

lemma ex_le_Suc_Cons: "(\<exists>j\<le>Suc i. P ((x # xs) ! j)) \<longleftrightarrow> P x \<or> (\<exists>j\<le>i. P (xs ! j))"
proof
  assume "\<exists>j\<le>Suc i. P ((x # xs) ! j)"
  then obtain j where j: "j \<le> Suc i" "P ((x # xs) ! j)" by blast
  show "P x \<or> (\<exists>j\<le>i. P (xs ! j))"
  proof (cases j)
    case 0
    with j show ?thesis by simp
  next
    case (Suc j')
    with j have "j' \<le> i" "P (xs ! j')" by simp_all
    then show ?thesis by blast
  qed
next
  assume "P x \<or> (\<exists>j\<le>i. P (xs ! j))"
  then show "\<exists>j\<le>Suc i. P ((x # xs) ! j)"
  proof
    assume "P x"
    then have "0 \<le> Suc i \<and> P ((x # xs) ! 0)" by simp
    then show ?thesis by blast
  next
    assume "\<exists>j\<le>i. P (xs ! j)"
    then obtain j where "j \<le> i" "P (xs ! j)" by blast
    then have "Suc j \<le> Suc i \<and> P ((x # xs) ! Suc j)" by simp
    then show ?thesis by blast
  qed
qed

text \<open>The loop changes the parameter list only, by appending one parameter for each
  parameter of the strategy. A parameter is tagged as a list as soon as it or a parameter
  before it carries list values.\<close>

lemma strategy_params_loop_appends:
  "\<exists>qs. strategy_params_loop valueType r params = r\<lparr>Spec_Params := Spec_Params r @ qs\<rparr> \<and>
        length qs = length params \<and>
        (\<forall>i<length params.
           ArrayVal (Param_Value (qs ! i)) = Params_Values (params ! i) \<and>
           Type (Param_Value (qs ! i)) =
             (if valueType = ParamTypeArray \<or> (\<exists>j\<le>i. Params_Values (params ! j) \<noteq> [])
              then ParamTypeArray else ParamTypeString))"
proof (induction params arbitrary: valueType r)
  case Nil
  show ?case by simp
next
  case (Cons p ps)
  define vt where "vt = (if length (Params_Values p) > 0 then ParamTypeArray else valueType)"
  define q where "q = \<lparr>Param_Name = Params_Name p,
     Param_Value = \<lparr>Type = vt, StringVal = Params_Value p, ArrayVal = Params_Values p\<rparr>\<rparr>"
  define r' where "r' = r\<lparr>Spec_Params := Spec_Params r @ [q]\<rparr>"
  have step: "strategy_params_loop valueType r (p # ps) = strategy_params_loop vt r' ps"
    by (simp add: vt_def q_def r'_def WithExtraParam_def Let_def)
  from Cons.IH [of vt r'] obtain qs where
    qs: "strategy_params_loop vt r' ps = r'\<lparr>Spec_Params := Spec_Params r' @ qs\<rparr>"
    and len: "length qs = length ps"
    and ty: "\<forall>i<length ps.
           ArrayVal (Param_Value (qs ! i)) = Params_Values (ps ! i) \<and>
           Type (Param_Value (qs ! i)) =
             (if vt = ParamTypeArray \<or> (\<exists>j\<le>i. Params_Values (ps ! j) \<noteq> [])
              then ParamTypeArray else ParamTypeString)"
    by blast
  have vt_Array: "vt = ParamTypeArray \<longleftrightarrow> valueType = ParamTypeArray \<or> Params_Values p \<noteq> []"
    by (cases valueType) (simp_all add: vt_def)
  have run: "strategy_params_loop valueType r (p # ps) = r\<lparr>Spec_Params := Spec_Params r @ (q # qs)\<rparr>"
    unfolding step qs by (simp add: r'_def)
  have types: "Type (Param_Value ((q # qs) ! i)) =
           (if valueType = ParamTypeArray \<or> (\<exists>j\<le>i. Params_Values ((p # ps) ! j) \<noteq> [])
            then ParamTypeArray else ParamTypeString)" if "i < length (p # ps)" for i
  proof (cases i)
    case 0
    have "Type (Param_Value q) = vt" by (simp add: q_def)
    then show ?thesis using vt_Array 0 by (cases vt) simp_all
  next
    case (Suc i')
    with that have "i' < length ps" by simp
    with ty have "Type (Param_Value (qs ! i')) =
           (if vt = ParamTypeArray \<or> (\<exists>j\<le>i'. Params_Values (ps ! j) \<noteq> [])
            then ParamTypeArray else ParamTypeString)" by blast
    then show ?thesis
      unfolding Suc ex_le_Suc_Cons [of i' "\<lambda>x. Params_Values x \<noteq> []" p ps] vt_Array
      by auto
  qed
  have lists: "ArrayVal (Param_Value ((q # qs) ! i)) = Params_Values ((p # ps) ! i)"
    if "i < length (p # ps)" for i
  proof (cases i)
    case 0
    then show ?thesis by (simp add: q_def)
  next
    case (Suc i')
    with that have "i' < length ps" by simp
    with ty show ?thesis by (simp add: Suc)
  qed
  from run len types lists show ?case
    by (intro exI [of _ "q # qs"]) simp
qed

lemma strategy_params_loop_Type:
  assumes "i < length params"
  shows "Type (Param_Value (Spec_Params (strategy_params_loop ParamTypeString r params)
            ! (length (Spec_Params r) + i)))
     = (if \<exists>j\<le>i. Params_Values (params ! j) \<noteq> [] then ParamTypeArray else ParamTypeString)"
proof -
  from strategy_params_loop_appends [of ParamTypeString r params] obtain qs where
    run: "strategy_params_loop ParamTypeString r params = r\<lparr>Spec_Params := Spec_Params r @ qs\<rparr>"
    and ty: "\<forall>i<length params.
           ArrayVal (Param_Value (qs ! i)) = Params_Values (params ! i) \<and>
           Type (Param_Value (qs ! i)) =
             (if ParamTypeString = ParamTypeArray \<or> (\<exists>j\<le>i. Params_Values (params ! j) \<noteq> [])
              then ParamTypeArray else ParamTypeString)"
    by blast
  have "Spec_Params (strategy_params_loop ParamTypeString r params) ! (length (Spec_Params r) + i) = qs ! i"
    by (simp add: run)
  with ty assms show ?thesis by simp
qed

text \<open>
  Claim C1. The shape tag of a parameter does not depend on that parameter alone: in the
  strategy with the parameters \<^verbatim>\<open>targets\<close> (list values \<^verbatim>\<open>a\<close>, \<^verbatim>\<open>b\<close>) and then
  \<^verbatim>\<open>verbose\<close> (single value \<^verbatim>\<open>true\<close>, no list values), the second parameter is tagged
  as a list, with an empty list.
\<close>

theorem WithReleaseStrategy_scalar_after_list:
  "map (\<lambda>q. (Param_Name q, Type (Param_Value q), StringVal (Param_Value q), ArrayVal (Param_Value q)))
     (Spec_Params (WithReleaseStrategy Map.empty (NewReleasePipelineRun ''release'' ''ns'')
        list_then_scalar_strategy))
   = [(''targets'', ParamTypeArray, [], [''a'', ''b'']),
      (''verbose'', ParamTypeArray, ''true'', [])]"
  by (simp add: WithReleaseStrategy_def WithWorkspace_def WithServiceAccount_def Let_def
      NewReleasePipelineRun_def list_then_scalar_strategy_def WithExtraParam_def Getenv_def)

lemma strategy_params_loop_scalar:
  "\<exists>qs. Spec_Params (strategy_params_loop ParamTypeString r params) = Spec_Params r @ qs \<and>
        (\<forall>q\<in>set qs. Type (Param_Value q) = ParamTypeString \<longrightarrow> ArrayVal (Param_Value q) = [])"
proof -
  from strategy_params_loop_appends [of ParamTypeString r params] obtain qs where
    run: "strategy_params_loop ParamTypeString r params = r\<lparr>Spec_Params := Spec_Params r @ qs\<rparr>"
    and len: "length qs = length params"
    and ty: "\<forall>i<length params.
           ArrayVal (Param_Value (qs ! i)) = Params_Values (params ! i) \<and>
           Type (Param_Value (qs ! i)) =
             (if ParamTypeString = ParamTypeArray \<or> (\<exists>j\<le>i. Params_Values (params ! j) \<noteq> [])
              then ParamTypeArray else ParamTypeString)"
    by blast
  have "ArrayVal (Param_Value q) = []"
    if q: "q \<in> set qs" and str: "Type (Param_Value q) = ParamTypeString" for q
  proof -
    from q obtain i where i: "i < length qs" "q = qs ! i"
      by (auto simp: in_set_conv_nth)
    with len ty have arr: "ArrayVal (Param_Value q) = Params_Values (params ! i)"
      and tag: "Type (Param_Value q) =
             (if ParamTypeString = ParamTypeArray \<or> (\<exists>j\<le>i. Params_Values (params ! j) \<noteq> [])
              then ParamTypeArray else ParamTypeString)"
      by simp_all
    from tag str have "\<not> (\<exists>j\<le>i. Params_Values (params ! j) \<noteq> [])"
      by (simp split: if_splits)
    then have "Params_Values (params ! i) = []" by blast
    with arr show ?thesis by simp
  qed
  moreover have "Spec_Params (strategy_params_loop ParamTypeString r params) = Spec_Params r @ qs"
    by (simp add: run)
  ultimately show ?thesis by blast
qed

text \<open>
  Claim C3, as amended. Every parameter that \<open>WithReleaseStrategy\<close> appends carries
  the name, the single value and the list of values of its strategy parameter, both
  slots copied as they are, whatever the shape tag; the parameters the run had before
  stay in front. An appended parameter tagged as a string has an empty list slot. The
  string slot of a parameter tagged as a list is the single value of the strategy
  parameter, empty only when that value is empty.
\<close>

theorem WithReleaseStrategy_slots_verbatim:
  "map (\<lambda>q. (Param_Name q, StringVal (Param_Value q), ArrayVal (Param_Value q)))
       (Spec_Params (WithReleaseStrategy env r strategy)) =
     map (\<lambda>q. (Param_Name q, StringVal (Param_Value q), ArrayVal (Param_Value q)))
       (Spec_Params r) @
     map (\<lambda>p. (Params_Name p, Params_Value p, Params_Values p)) (Strategy_Params strategy) \<and>
   (\<forall>q\<in>set (drop (length (Spec_Params r)) (Spec_Params (WithReleaseStrategy env r strategy))).
      Type (Param_Value q) = ParamTypeString \<longrightarrow> ArrayVal (Param_Value q) = [])"
proof
  show "map (\<lambda>q. (Param_Name q, StringVal (Param_Value q), ArrayVal (Param_Value q)))
       (Spec_Params (WithReleaseStrategy env r strategy)) =
     map (\<lambda>q. (Param_Name q, StringVal (Param_Value q), ArrayVal (Param_Value q)))
       (Spec_Params r) @
     map (\<lambda>p. (Params_Name p, Params_Value p, Params_Values p)) (Strategy_Params strategy)"
    by (simp add: WithReleaseStrategy_def WithWorkspace_def WithServiceAccount_def Let_def
        strategy_params_loop_slots)
next
  let ?r = "r\<lparr>Spec_PipelineRef := Some (getPipelineRef strategy)\<rparr>"
  from strategy_params_loop_scalar [of ?r "Strategy_Params strategy"] obtain qs where
    run: "Spec_Params (strategy_params_loop ParamTypeString ?r (Strategy_Params strategy))
            = Spec_Params r @ qs"
    and scalar: "\<forall>q\<in>set qs. Type (Param_Value q) = ParamTypeString \<longrightarrow> ArrayVal (Param_Value q) = []"
    by auto
  have "Spec_Params (WithReleaseStrategy env r strategy) = Spec_Params r @ qs"
    by (simp add: WithReleaseStrategy_def WithWorkspace_def WithServiceAccount_def Let_def run)
  with scalar show "\<forall>q\<in>set (drop (length (Spec_Params r))
        (Spec_Params (WithReleaseStrategy env r strategy))).
      Type (Param_Value q) = ParamTypeString \<longrightarrow> ArrayVal (Param_Value q) = []"
    by simp
qed

theorem WithReleaseStrategy_slots_verbatim_witness:
  "map (\<lambda>q. (Param_Name q, StringVal (Param_Value q), ArrayVal (Param_Value q)))
     (Spec_Params (WithReleaseStrategy Map.empty (NewReleasePipelineRun ''release'' ''ns'')
        both_slots_strategy))
   = [(''targets'', ''single'', [''a''])] \<and>
   Type (Param_Value (hd (Spec_Params (WithReleaseStrategy Map.empty
      (NewReleasePipelineRun ''release'' ''ns'') scenario_strategy)))) = ParamTypeString \<and>
   ArrayVal (Param_Value (hd (Spec_Params (WithReleaseStrategy Map.empty
      (NewReleasePipelineRun ''release'' ''ns'') scenario_strategy)))) = []"
proof -
  have params: "Spec_Params (WithReleaseStrategy Map.empty
      (NewReleasePipelineRun ''release'' ''ns'') scenario_strategy)
    = [\<lparr>Param_Name = ''verbose'',
        Param_Value = \<lparr>Type = ParamTypeString, StringVal = ''true'', ArrayVal = []\<rparr>\<rparr>]"
    by (simp add: WithReleaseStrategy_def WithWorkspace_def WithServiceAccount_def Let_def
        NewReleasePipelineRun_def scenario_strategy_def WithExtraParam_def Getenv_def)
  have none: "Spec_Params (NewReleasePipelineRun ''release'' ''ns'') = []"
    by (simp add: NewReleasePipelineRun_def)
  from WithReleaseStrategy_slots_verbatim [of Map.empty "NewReleasePipelineRun ''release'' ''ns''"
      both_slots_strategy]
  have both: "map (\<lambda>q. (Param_Name q, StringVal (Param_Value q), ArrayVal (Param_Value q)))
     (Spec_Params (WithReleaseStrategy Map.empty (NewReleasePipelineRun ''release'' ''ns'')
        both_slots_strategy))
   = [(''targets'', ''single'', [''a''])]"
    by (simp add: none both_slots_strategy_def)
  from WithReleaseStrategy_slots_verbatim [of Map.empty "NewReleasePipelineRun ''release'' ''ns''"
      scenario_strategy]
  have "Type (Param_Value (hd (Spec_Params (WithReleaseStrategy Map.empty
      (NewReleasePipelineRun ''release'' ''ns'') scenario_strategy)))) = ParamTypeString \<longrightarrow>
   ArrayVal (Param_Value (hd (Spec_Params (WithReleaseStrategy Map.empty
      (NewReleasePipelineRun ''release'' ''ns'') scenario_strategy)))) = []"
    by (simp add: none params)
  moreover have "Type (Param_Value (hd (Spec_Params (WithReleaseStrategy Map.empty
      (NewReleasePipelineRun ''release'' ''ns'') scenario_strategy)))) = ParamTypeString"
    by (simp add: params)
  ultimately show ?thesis using both by blast
qed

text \<open>Claim C3 as stated fails: a strategy parameter with the single value \<^verbatim>\<open>single\<close>
  and the list value \<^verbatim>\<open>a\<close> yields a parameter tagged as a list whose string slot is
  not empty.\<close>

theorem WithReleaseStrategy_both_slots_counterexample:
  "Type (Param_Value (hd (Spec_Params (WithReleaseStrategy Map.empty
      (NewReleasePipelineRun ''release'' ''ns'') both_slots_strategy)))) = ParamTypeArray \<and>
   StringVal (Param_Value (hd (Spec_Params (WithReleaseStrategy Map.empty
      (NewReleasePipelineRun ''release'' ''ns'') both_slots_strategy)))) \<noteq> []"
  by (simp add: WithReleaseStrategy_def WithWorkspace_def WithServiceAccount_def Let_def
      NewReleasePipelineRun_def both_slots_strategy_def WithExtraParam_def Getenv_def)

text \<open>The two scenarios of a whole strategy: a direct reference with one string parameter
  and one workspace binding, and a bundle reference.\<close>

lemma scenario_direct:
  "WithReleaseStrategy [''DEFAULT_RELEASE_WORKSPACE_NAME'' \<mapsto> ''release-ws'']
     (NewReleasePipelineRun ''release'' ''ns'') scenario_strategy
   = (NewReleasePipelineRun ''release'' ''ns'')
       \<lparr>Spec_PipelineRef := Some \<lparr>PipelineRef_Name = ''build'',
           PipelineRef_ResolverRef = \<lparr>Resolver = [], ResolverRef_Params = []\<rparr>\<rparr>,
        Spec_Params := [\<lparr>Param_Name = ''verbose'',
           Param_Value = \<lparr>Type = ParamTypeString, StringVal = ''true'', ArrayVal = []\<rparr>\<rparr>],
        Spec_Workspaces := [\<lparr>WorkspaceBinding_Name = ''release-ws'',
           WorkspaceBinding_PersistentVolumeClaim = Some \<lparr>ClaimName = ''pvc-1''\<rparr>\<rparr>]\<rparr>"
  by (simp add: WithReleaseStrategy_def WithWorkspace_def WithServiceAccount_def Let_def
      NewReleasePipelineRun_def scenario_strategy_def WithExtraParam_def Getenv_def
      getPipelineRef_def)

lemma scenario_bundle:
  "Spec_PipelineRef (WithReleaseStrategy Map.empty (NewReleasePipelineRun ''release'' ''ns'')
      bundle_strategy)
   = Some \<lparr>PipelineRef_Name = [],
       PipelineRef_ResolverRef = getBundleResolver ''quay.io/foo:v1'' ''deploy''\<rparr> \<and>
   Spec_Workspaces (WithReleaseStrategy Map.empty (NewReleasePipelineRun ''release'' ''ns'')
      bundle_strategy) = []"
  by (simp add: WithReleaseStrategy_def WithWorkspace_def WithServiceAccount_def Let_def
      NewReleasePipelineRun_def bundle_strategy_def Getenv_def getPipelineRef_def)

subsection \<open>Owner and metadata\<close>

text \<open>
  Claim C10. \<open>WithOwner\<close> adds the finalizer for every release. The error of recording
  the owner is dropped: when recording fails, the result is the run with the finalizer
  added and nothing else changed, so its annotations are those it had and hold no
  reference to the owner.
\<close>

theorem WithOwner_finalizer_unconditional:
  "ReleaseFinalizer c \<in> set (Finalizers (WithOwner c r release)) \<and>
   (\<forall>e. SetOwnerAnnotations release r = Inl e \<longrightarrow>
      WithOwner c r release = AddFinalizer r (ReleaseFinalizer c) \<and>
      Annotations (WithOwner c r release) = Annotations r)"
  by (auto simp: WithOwner_def AddFinalizer_def SetOwnerAnnotations_def split: sum.splits)

theorem WithOwner_finalizer_unconditional_witness:
  "SetOwnerAnnotations nameless_release (NewReleasePipelineRun ''release'' ''ns'') = Inl OwnerWithoutName \<and>
   Finalizers (WithOwner example_constants (NewReleasePipelineRun ''release'' ''ns'') nameless_release)
     = [''appstudio.redhat.com/release-finalizer''] \<and>
   Annotations (WithOwner example_constants (NewReleasePipelineRun ''release'' ''ns'') nameless_release)
     = Map.empty"
proof -
  have fails: "SetOwnerAnnotations nameless_release (NewReleasePipelineRun ''release'' ''ns'') = Inl OwnerWithoutName"
    by (simp add: SetOwnerAnnotations_def nameless_release_def)
  have fin: "Finalizers (NewReleasePipelineRun ''release'' ''ns'') = []"
    and ann: "Annotations (NewReleasePipelineRun ''release'' ''ns'') = Map.empty"
    by (simp_all add: NewReleasePipelineRun_def)
  from WithOwner_finalizer_unconditional [of example_constants "NewReleasePipelineRun ''release'' ''ns''" nameless_release] fails
  have "WithOwner example_constants (NewReleasePipelineRun ''release'' ''ns'') nameless_release
          = AddFinalizer (NewReleasePipelineRun ''release'' ''ns'') (ReleaseFinalizer example_constants)"
    and "Annotations (WithOwner example_constants (NewReleasePipelineRun ''release'' ''ns'') nameless_release)
          = Annotations (NewReleasePipelineRun ''release'' ''ns'')"
    by blast+
  then show ?thesis using fails fin ann
    by (simp add: AddFinalizer_def example_constants_def)
qed

lemma map_add_idem: "(m ++ f) ++ f = m ++ (f :: 'a \<rightharpoonup> 'b)"
  by (simp add: map_add_def fun_eq_iff split: option.splits)

text \<open>
  Claim C8. Applying \<open>WithReleaseAndApplicationMetadata\<close> twice with the same release
  and application name gives the same run as applying it once. Every label of the
  release under the propagated prefix is a label of the result with its value, so no
  fixed label replaces it. When the four fixed keys are distinct and the release has no
  propagated label under one of them, the labels of the result are the four fixed
  entries (run type \<^verbatim>\<open>release\<close>, release name, release namespace, application name)
  and, under every other key, the propagated labels of the release.
\<close>

theorem WithReleaseAndApplicationMetadata_idempotent:
  "WithReleaseAndApplicationMetadata c (WithReleaseAndApplicationMetadata c r release applicationName)
      release applicationName
     = WithReleaseAndApplicationMetadata c r release applicationName \<and>
   (\<forall>k v. GetLabelsWithPrefix release (PipelinesAsCodePrefix c) k = Some v \<longrightarrow>
      Labels (WithReleaseAndApplicationMetadata c r release applicationName) k = Some v) \<and>
   (distinct [PipelinesTypeLabel c, ReleaseNameLabel c, ReleaseNamespaceLabel c, ApplicationNameLabel c] \<and>
    (\<forall>k\<in>set [PipelinesTypeLabel c, ReleaseNameLabel c, ReleaseNamespaceLabel c, ApplicationNameLabel c].
       GetLabelsWithPrefix release (PipelinesAsCodePrefix c) k = None) \<longrightarrow>
      Labels (WithReleaseAndApplicationMetadata c r release applicationName) (PipelinesTypeLabel c)
        = Some ''release'' \<and>
      Labels (WithReleaseAndApplicationMetadata c r release applicationName) (ReleaseNameLabel c)
        = Some (Release_Name release) \<and>
      Labels (WithReleaseAndApplicationMetadata c r release applicationName) (ReleaseNamespaceLabel c)
        = Some (Release_Namespace release) \<and>
      Labels (WithReleaseAndApplicationMetadata c r release applicationName) (ApplicationNameLabel c)
        = Some applicationName \<and>
      (\<forall>k. k \<notin> set [PipelinesTypeLabel c, ReleaseNameLabel c, ReleaseNamespaceLabel c, ApplicationNameLabel c] \<longrightarrow>
         Labels (WithReleaseAndApplicationMetadata c r release applicationName) k
           = GetLabelsWithPrefix release (PipelinesAsCodePrefix c) k))"
proof (intro conjI)
  show "WithReleaseAndApplicationMetadata c (WithReleaseAndApplicationMetadata c r release applicationName)
      release applicationName
     = WithReleaseAndApplicationMetadata c r release applicationName"
    by (simp add: WithReleaseAndApplicationMetadata_def AddLabels_def AddAnnotations_def Let_def
        map_add_idem)
next
  show "\<forall>k v. GetLabelsWithPrefix release (PipelinesAsCodePrefix c) k = Some v \<longrightarrow>
      Labels (WithReleaseAndApplicationMetadata c r release applicationName) k = Some v"
    by (simp add: WithReleaseAndApplicationMetadata_def AddLabels_def AddAnnotations_def Let_def
        map_add_def)
next
  show "distinct [PipelinesTypeLabel c, ReleaseNameLabel c, ReleaseNamespaceLabel c, ApplicationNameLabel c] \<and>
    (\<forall>k\<in>set [PipelinesTypeLabel c, ReleaseNameLabel c, ReleaseNamespaceLabel c, ApplicationNameLabel c].
       GetLabelsWithPrefix release (PipelinesAsCodePrefix c) k = None) \<longrightarrow>
      Labels (WithReleaseAndApplicationMetadata c r release applicationName) (PipelinesTypeLabel c)
        = Some ''release'' \<and>
      Labels (WithReleaseAndApplicationMetadata c r release applicationName) (ReleaseNameLabel c)
        = Some (Release_Name release) \<and>
      Labels (WithReleaseAndApplicationMetadata c r release applicationName) (ReleaseNamespaceLabel c)
        = Some (Release_Namespace release) \<and>
      Labels (WithReleaseAndApplicationMetadata c r release applicationName) (ApplicationNameLabel c)
        = Some applicationName \<and>
      (\<forall>k. k \<notin> set [PipelinesTypeLabel c, ReleaseNameLabel c, ReleaseNamespaceLabel c, ApplicationNameLabel c] \<longrightarrow>
         Labels (WithReleaseAndApplicationMetadata c r release applicationName) k
           = GetLabelsWithPrefix release (PipelinesAsCodePrefix c) k)"
    by (auto simp: WithReleaseAndApplicationMetadata_def AddLabels_def AddAnnotations_def Let_def
        map_add_def PipelineTypeRelease_def split: option.splits)
qed

theorem WithReleaseAndApplicationMetadata_idempotent_witness:
  "Labels (WithReleaseAndApplicationMetadata example_constants
      (WithReleaseAndApplicationMetadata example_constants (NewReleasePipelineRun ''release'' ''ns'')
         example_release ''app'') example_release ''app'') ''release.appstudio.openshift.io/name''
     = Some ''rel-1'' \<and>
   Labels (WithReleaseAndApplicationMetadata example_constants (NewReleasePipelineRun ''release'' ''ns'')
         example_release ''app'') ''pac.test.appstudio.openshift.io/sha'' = Some ''abc'' \<and>
   Labels (WithReleaseAndApplicationMetadata example_constants (NewReleasePipelineRun ''release'' ''ns'')
         example_release ''app'') ''team'' = None"
  using WithReleaseAndApplicationMetadata_idempotent [of example_constants
      "NewReleasePipelineRun ''release'' ''ns''" example_release "''app''"]
  by (simp add: example_constants_def example_release_def GetLabelsWithPrefix_def
      filterByPrefix_def HasPrefix_def)

end
